theory Spec2Isabelle
  imports Main "HOL-Library.Word"
begin

unbundle bit_operations_syntax

section \<open>Common types\<close>

text \<open>
  A \<^verbatim>\<open>Uint8Array\<close> is a list of bytes; its \<^verbatim>\<open>byteLength\<close> is the length of the list.
  A thrown JavaScript exception is a value of \<open>js_error\<close>: \<open>Error msg\<close> for
  \<^verbatim>\<open>throw new Error(msg)\<close>, \<open>TypeError\<close> for a property read on \<^verbatim>\<open>undefined\<close>, and
  \<open>DOMException name\<close> for a failure raised by the WebUSB implementation.
\<close>

type_synonym bytes = "8 word list"

datatype js_error = Error string | TypeError | DOMException string

text \<open>
  What has become of the call of an \<^verbatim>\<open>async\<close> function: it has returned, it has thrown,
  or it is suspended at an \<^verbatim>\<open>await\<close> whose promise has not settled.
\<close>

datatype async_outcome = Returned | Threw js_error | Suspended

section \<open>WebUSB backend: \<^verbatim>\<open>findUsbEndpoints\<close>\<close>

text \<open>
  \<^verbatim>\<open>USBEndpoint.direction\<close> is the WebUSB enumeration \<^verbatim>\<open>"in" | "out"\<close>. Of an endpoint
  the backend reads \<^verbatim>\<open>direction\<close> and \<^verbatim>\<open>endpointNumber\<close>.
\<close>

datatype USBDirection = In | Out

record USBEndpoint =
  endpointNumber :: nat
  direction :: USBDirection

record UsbEndpointPair =
  inEndpoint :: USBEndpoint
  outEndpoint :: USBEndpoint

text \<open>
  The \<^verbatim>\<open>for (const endpoint of endpoints)\<close> loop with its two local variables, followed
  by the three \<^verbatim>\<open>throw\<close> statements after the loop. The variables \<open>inE\<close> and \<open>outE\<close> are
  \<^verbatim>\<open>inEndpoint\<close> and \<^verbatim>\<open>outEndpoint\<close> (\<open>None\<close> is \<^verbatim>\<open>undefined\<close>).
\<close>

fun findUsbEndpoints_loop ::
  "USBEndpoint option \<Rightarrow> USBEndpoint option \<Rightarrow> USBEndpoint list \<Rightarrow> js_error + UsbEndpointPair"
where
  "findUsbEndpoints_loop inE outE [] =
     (if inE = None then Inl (Error ''No input endpoint found.'')
      else if outE = None then Inl (Error ''No output endpoint found.'')
      else Inl (Error ''unreachable''))"
| "findUsbEndpoints_loop inE outE (endpoint # rest) =
     (case direction endpoint of
        In \<Rightarrow>
          (case outE of
             Some out \<Rightarrow> Inr \<lparr>inEndpoint = endpoint, outEndpoint = out\<rparr>
           | None \<Rightarrow> findUsbEndpoints_loop (Some endpoint) outE rest)
      | Out \<Rightarrow>
          (case inE of
             Some inp \<Rightarrow> Inr \<lparr>inEndpoint = inp, outEndpoint = endpoint\<rparr>
           | None \<Rightarrow> findUsbEndpoints_loop inE (Some endpoint) rest))"

definition findUsbEndpoints :: "USBEndpoint list \<Rightarrow> js_error + UsbEndpointPair" where
  "findUsbEndpoints endpoints =
     (if length endpoints = 0 then Inl (Error ''No endpoints given'')
      else findUsbEndpoints_loop None None endpoints)"

text \<open>
  Inside the loop at most one of the two variables is set: as soon as the second one is
  assigned the function returns. The variable that is set holds an endpoint of its own
  direction.
\<close>

definition loop_vars_ok :: "USBEndpoint option \<Rightarrow> USBEndpoint option \<Rightarrow> bool" where
  "loop_vars_ok inE outE =
     ((inE = None \<or> outE = None) \<and>
      (case inE of None \<Rightarrow> True | Some e \<Rightarrow> direction e = In) \<and>
      (case outE of None \<Rightarrow> True | Some e \<Rightarrow> direction e = Out))"

section \<open>WebUSB backend: the inbound \<^verbatim>\<open>pull\<close>\<close>

text \<open>
  The fields of a decoded packet header are unsigned 32-bit integers; the packet that
  \<^verbatim>\<open>pull\<close> enqueues is the header object with its \<^verbatim>\<open>payload\<close> field assigned.
\<close>

record AdbPacketHeader =
  command :: "32 word"
  arg0 :: "32 word"
  arg1 :: "32 word"
  payloadLength :: "32 word"
  checksum :: "32 word"
  magic :: "32 word"

record AdbPacketData = AdbPacketHeader +
  payload :: bytes

definition EMPTY_UINT8_ARRAY :: bytes where
  "EMPTY_UINT8_ARRAY = []"

text \<open>
  \<^verbatim>\<open>Uint8ArrayStructDeserializeStream\<close>: \<^verbatim>\<open>read(length)\<close> returns
  \<^verbatim>\<open>buffer.subarray(offset, offset + length)\<close>, which is clamped to the end of the buffer,
  and advances the offset by \<^verbatim>\<open>length\<close>.
\<close>

record Uint8ArrayStructDeserializeStream =
  buffer :: bytes
  offset :: nat

definition Uint8ArrayStructDeserializeStream_new :: "bytes \<Rightarrow> Uint8ArrayStructDeserializeStream" where
  "Uint8ArrayStructDeserializeStream_new b = \<lparr>buffer = b, offset = 0\<rparr>"

definition read ::
  "nat \<Rightarrow> Uint8ArrayStructDeserializeStream \<Rightarrow> bytes \<times> Uint8ArrayStructDeserializeStream"
where
  "read len s = (take len (drop (offset s) (buffer s)), s\<lparr>offset := offset s + len\<rparr>)"

text \<open>
  The USB device is the browser's object. Its model is a script of the answers it will
  give to the coming \<^verbatim>\<open>transferIn\<close> calls (\<open>Inl e\<close>: the returned promise rejects with
  \<open>e\<close>; \<open>Inr r\<close>: it fulfils with the result \<open>r\<close>) and the record of the calls made so
  far, each with its endpoint number and its \<^verbatim>\<open>length\<close> argument. When the script is
  empty the promise does not settle and the caller stays suspended (\<open>None\<close>).
  In a \<^verbatim>\<open>USBInTransferResult\<close> the field \<^verbatim>\<open>data\<close> is optional.
\<close>

datatype USBTransferStatus = StatusOk | StatusStall | StatusBabble

record USBInTransferResult =
  data :: "bytes option"
  status :: USBTransferStatus

record USBDevice =
  responses :: "(js_error + USBInTransferResult) list"
  transfers :: "(nat \<times> nat) list"

definition transferIn ::
  "USBDevice \<Rightarrow> nat \<Rightarrow> nat \<Rightarrow> (js_error + USBInTransferResult) option \<times> USBDevice"
where
  "transferIn device endpointNumber' len =
     (let device' = device\<lparr>transfers := transfers device @ [(endpointNumber', len)]\<rparr>
      in case responses device of
           [] \<Rightarrow> (None, device')
         | r # rest \<Rightarrow> (Some r, device'\<lparr>responses := rest\<rparr>))"

text \<open>
  One call of the \<^verbatim>\<open>pull\<close> callback of the readable stream. The state is the device
  and the list of packets passed to \<^verbatim>\<open>controller.enqueue\<close> so far.
  \<^verbatim>\<open>AdbPacketHeader.deserialize\<close> belongs to another package and is a parameter
  \<open>deserialize\<close> here: it reads from the stream and returns a header or throws.
  The outcome \<open>Returned\<close> is the normal return, \<open>Threw e\<close> an exception (the read
  \<^verbatim>\<open>result.data!.buffer\<close> throws a \<^verbatim>\<open>TypeError\<close> when \<^verbatim>\<open>data\<close> is \<^verbatim>\<open>undefined\<close>), and
  \<open>Suspended\<close> an \<^verbatim>\<open>await\<close> on a transfer that has not settled.
\<close>

record pull_state =
  device :: USBDevice
  enqueued :: "AdbPacketData list"

text \<open>
  \<^verbatim>\<open>packet.payload = p\<close>: the header object with the field \<^verbatim>\<open>payload\<close> added.
\<close>

definition with_payload :: "AdbPacketHeader \<Rightarrow> bytes \<Rightarrow> AdbPacketData" where
  "with_payload packet p =
     \<lparr>command = command packet, arg0 = arg0 packet, arg1 = arg1 packet,
      payloadLength = payloadLength packet, checksum = checksum packet, magic = magic packet,
      payload = p\<rparr>"

definition pull ::
  "(Uint8ArrayStructDeserializeStream \<Rightarrow> js_error + AdbPacketHeader) \<Rightarrow>
   USBEndpoint \<Rightarrow> pull_state \<Rightarrow> async_outcome \<times> pull_state"
where
  "pull deserialize inEndpoint' st =
     (case transferIn (device st) (endpointNumber inEndpoint') 24 of
        (None, device1) \<Rightarrow> (Suspended, st\<lparr>device := device1\<rparr>)
      | (Some (Inl e), device1) \<Rightarrow> (Threw e, st\<lparr>device := device1\<rparr>)
      | (Some (Inr result), device1) \<Rightarrow>
          (case data result of
             None \<Rightarrow> (Threw TypeError, st\<lparr>device := device1\<rparr>)
           | Some buffer' \<Rightarrow>
               (case deserialize (Uint8ArrayStructDeserializeStream_new buffer') of
                  Inl e \<Rightarrow> (Threw e, st\<lparr>device := device1\<rparr>)
                | Inr packet \<Rightarrow>
                    if payloadLength packet \<noteq> 0 then
                      (case transferIn device1 (endpointNumber inEndpoint')
                              (unat (payloadLength packet)) of
                         (None, device2) \<Rightarrow> (Suspended, st\<lparr>device := device2\<rparr>)
                       | (Some (Inl e), device2) \<Rightarrow> (Threw e, st\<lparr>device := device2\<rparr>)
                       | (Some (Inr result2), device2) \<Rightarrow>
                           (case data result2 of
                              None \<Rightarrow> (Threw TypeError, st\<lparr>device := device2\<rparr>)
                            | Some buffer2 \<Rightarrow>
                                (Returned,
                                 \<lparr>device = device2,
                                  enqueued = enqueued st @ [with_payload packet buffer2]\<rparr>)))
                    else
                      (Returned,
                       \<lparr>device = device1,
                        enqueued = enqueued st @ [with_payload packet EMPTY_UINT8_ARRAY]\<rparr>))))"

text \<open>
  Modelled from the spec: \<^verbatim>\<open>AdbPacketHeader.deserialize\<close> (package \<^verbatim>\<open>@yume-chan/adb\<close>, not
  among the sources), for running \<open>pull\<close> on concrete bytes. The spec: the header is six
  little-endian 32-bit fields (command, arg0, arg1, payload length, checksum, magic) in 24
  bytes; "read exactly 24 bytes; reject if \<^verbatim>\<open>command XOR magic\<close> is not \<^verbatim>\<open>0xFFFFFFFF\<close>"; the
  error kinds \<^verbatim>\<open>ShortRead\<close> and \<^verbatim>\<open>BadMagic\<close>. Each field is read from the stream with
  \<open>read 4\<close>.
\<close>

fun getUint32 :: "bytes \<Rightarrow> 32 word option" where
  "getUint32 [b0, b1, b2, b3] =
     Some (ucast b0 OR push_bit 8 (ucast b1) OR push_bit 16 (ucast b2) OR push_bit 24 (ucast b3))"
| "getUint32 bs = None"

text \<open>
  Modelled from the spec: one little-endian 32-bit field read from the stream; fewer than
  four bytes left is the spec's \<^verbatim>\<open>ShortRead\<close>.
\<close>

definition read_u32 ::
  "Uint8ArrayStructDeserializeStream \<Rightarrow> js_error + 32 word \<times> Uint8ArrayStructDeserializeStream"
where
  "read_u32 s =
     (case read 4 s of
        (bs, s') \<Rightarrow>
          (case getUint32 bs of None \<Rightarrow> Inl (Error ''ShortRead'') | Some w \<Rightarrow> Inr (w, s')))"

text \<open>
  Modelled from the spec: the fields are read one after the other, and the first error ends
  the decoding.
\<close>

definition then_read ::
  "js_error + 'a \<times> Uint8ArrayStructDeserializeStream \<Rightarrow>
   ('a \<Rightarrow> Uint8ArrayStructDeserializeStream \<Rightarrow> js_error + 'b) \<Rightarrow> js_error + 'b"
where
  "then_read r f = (case r of Inl e \<Rightarrow> Inl e | Inr (x, s) \<Rightarrow> f x s)"

text \<open>
  Modelled from the spec: \<^verbatim>\<open>AdbPacketHeader.deserialize\<close>, the six fields in the order of the
  wire format, then the check of the magic.
\<close>

definition AdbPacketHeader_deserialize ::
  "Uint8ArrayStructDeserializeStream \<Rightarrow> js_error + AdbPacketHeader"
where
  "AdbPacketHeader_deserialize s0 =
     then_read (read_u32 s0) (\<lambda>command' s1.
     then_read (read_u32 s1) (\<lambda>arg0' s2.
     then_read (read_u32 s2) (\<lambda>arg1' s3.
     then_read (read_u32 s3) (\<lambda>payloadLength' s4.
     then_read (read_u32 s4) (\<lambda>checksum' s5.
     then_read (read_u32 s5) (\<lambda>magic' s6.
       if command' XOR magic' \<noteq> 0xFFFFFFFF then Inl (Error ''BadMagic'')
       else Inr \<lparr>command = command', arg0 = arg0', arg1 = arg1',
                 payloadLength = payloadLength', checksum = checksum', magic = magic'\<rparr>))))))"

text \<open>
  Example data: the header of a \<^verbatim>\<open>WRTE(7, 1, payload)\<close> packet with a payload of \<open>n\<close>
  bytes, as bytes and decoded, and an inbound endpoint.
\<close>

definition example_header_bytes :: "8 word \<Rightarrow> bytes" where
  "example_header_bytes n =
     [0x57, 0x52, 0x54, 0x45,  7, 0, 0, 0,  1, 0, 0, 0,  n, 0, 0, 0,
      0, 0, 0, 0,  0xA8, 0xAD, 0xAB, 0xBA]"

definition example_header :: "8 word \<Rightarrow> AdbPacketHeader" where
  "example_header n =
     \<lparr>command = 0x45545257, arg0 = 7, arg1 = 1, payloadLength = ucast n,
      checksum = 0, magic = 0xBAABADA8\<rparr>"

definition example_endpoint :: USBEndpoint where
  "example_endpoint = \<lparr>endpointNumber = 1, direction = In\<rparr>"

definition example_device :: "(js_error + USBInTransferResult) list \<Rightarrow> pull_state" where
  "example_device rs = \<lparr>device = \<lparr>responses = rs, transfers = []\<rparr>, enqueued = []\<rparr>"

section \<open>ADB socket\<close>

subsection \<open>Collaborators of the socket\<close>

text \<open>
  \<^verbatim>\<open>PromiseResolver\<close> (package \<^verbatim>\<open>@yume-chan/async\<close>) wraps a JavaScript promise with its
  \<^verbatim>\<open>resolve\<close> and \<^verbatim>\<open>reject\<close> functions: a new one is pending, and settling a promise that
  is already settled does nothing.
\<close>

datatype PromiseResolver = Pending | Resolved | Rejected js_error

fun resolve :: "PromiseResolver \<Rightarrow> PromiseResolver" where
  "resolve Pending = Resolved"
| "resolve p = p"

fun reject :: "js_error \<Rightarrow> PromiseResolver \<Rightarrow> PromiseResolver" where
  "reject e Pending = Rejected e"
| "reject e p = p"

text \<open>
  The commands of \<^verbatim>\<open>AdbCommand\<close>, and a packet as \<^verbatim>\<open>sendPacket\<close> receives it: the command,
  \<^verbatim>\<open>arg0\<close>, \<^verbatim>\<open>arg1\<close> and the payload (empty when the argument is left out).
\<close>

datatype AdbCommand = Connect | Auth | Open | Okay | Write | Close | Sync

datatype AdbPacketInit =
  Packet (pkt_command: AdbCommand) (pkt_arg0: nat) (pkt_arg1: nat) (pkt_payload: bytes)

record AdbPacketDispatcherOptions =
  maxPayloadSize :: nat

record AdbPacketDispatcher =
  options :: AdbPacketDispatcherOptions
  sent :: "AdbPacketInit list"

text \<open>
  Modelled from the spec: \<^verbatim>\<open>AdbPacketDispatcher.sendPacket\<close> (\<^verbatim>\<open>dispatcher.ts\<close> is not among
  the sources). The spec has the socket "send \<^verbatim>\<open>WRTE(localId, remoteId, chunk)\<close> through the
  dispatcher", which owns the transport; the model keeps the packets handed to the
  dispatcher, in the order of the calls.
\<close>

definition sendPacket ::
  "AdbPacketDispatcher \<Rightarrow> AdbCommand \<Rightarrow> nat \<Rightarrow> nat \<Rightarrow> bytes \<Rightarrow> AdbPacketDispatcher"
where
  "sendPacket d cmd a0 a1 p = d\<lparr>sent := sent d @ [Packet cmd a0 a1 p]\<rparr>"




text \<open>
  Modelled from the spec: \<^verbatim>\<open>DuplexStreamFactory\<close> (\<^verbatim>\<open>stream/index.js\<close> is not among the
  sources). \<^verbatim>\<open>dispose()\<close> runs the \<^verbatim>\<open>dispose\<close> callback. \<^verbatim>\<open>close()\<close> runs the \<^verbatim>\<open>close\<close>
  callback and then disposes, unless the callback returned \<^verbatim>\<open>false\<close> (the socket's callback
  says: "Don't dispose here, we need to wait for CLSE response packet", and the spec:
  "send \<^verbatim>\<open>CLSE(localId, remoteId)\<close>; do NOT dispose local state yet"). The first component
  of the callback's result is \<open>False\<close> when it returned \<^verbatim>\<open>false\<close>.
  The factory "fans a close signal to both halves": after \<^verbatim>\<open>close()\<close> the writable halves it
  has created are closed ("further outbound writes fail with \<^verbatim>\<open>SocketClosed\<close>"), which is
  the factory's own state \<open>writableClosed\<close>.
\<close>

record DuplexStreamFactory =
  writableClosed :: bool

text \<open>
  Modelled from the spec: \<^verbatim>\<open>DuplexStreamFactory.dispose()\<close>, as described above.
\<close>

definition DuplexStreamFactory_dispose :: "('s \<Rightarrow> 's) \<Rightarrow> 's \<Rightarrow> 's" where
  "DuplexStreamFactory_dispose dispose_cb s = dispose_cb s"

text \<open>
  Modelled from the spec: \<^verbatim>\<open>DuplexStreamFactory.close()\<close>, as described above.
\<close>

definition DuplexStreamFactory_close ::
  "('s \<Rightarrow> bool \<times> 's) \<Rightarrow> ('s \<Rightarrow> 's) \<Rightarrow> DuplexStreamFactory \<times> 's \<Rightarrow> DuplexStreamFactory \<times> 's"
where
  "DuplexStreamFactory_close close_cb dispose_cb fs =
     (case fs of
        (f, s) \<Rightarrow>
          (case close_cb s of
             (r, s') \<Rightarrow>
               (f\<lparr>writableClosed := True\<rparr>,
                if r \<noteq> False then DuplexStreamFactory_dispose dispose_cb s' else s')))"

text \<open>
  The readable half: a \<^verbatim>\<open>PushReadableStream\<close> with its queuing strategy and the chunks
  enqueued into it. The writable half: the sink below behind a \<^verbatim>\<open>ChunkStream\<close> of the given
  size.
\<close>

record QueuingStrategy =
  strategy_highWaterMark :: int
  strategy_size :: "bytes \<Rightarrow> nat"

record PushReadableStream =
  strategy :: QueuingStrategy
  queue :: "bytes list"

record WritableStream =
  chunkStream_size :: nat

subsection \<open>\<^verbatim>\<open>AdbSocketController\<close> and \<^verbatim>\<open>AdbSocket\<close>\<close>

text \<open>
  \<^verbatim>\<open>AdbSocketConstructionOptions extends AdbSocketInfo\<close>, and the constructor copies every
  field of the options into the controller (\<^verbatim>\<open>Object.assign(this, options)\<close>), so the three
  records extend one another. The controller holds the dispatcher it sends through and the
  factory of its two halves; the model keeps their states inside the controller's record. An \<^verbatim>\<open>AdbSocket\<close> holds
  a reference to its controller, an address of the store \<open>heap\<close>.
  A field \<^verbatim>\<open>_name\<close> of the source is \<open>name\<close> here.
\<close>

record AdbSocketInfo =
  localId :: nat
  remoteId :: nat
  localCreated :: bool
  serviceString :: string

record AdbSocketConstructionOptions = AdbSocketInfo +
  dispatcher :: AdbPacketDispatcher
  highWaterMark :: "int option"

record AdbSocket =
  controller :: nat

record AdbSocketController = AdbSocketConstructionOptions +
  factory :: DuplexStreamFactory
  readable :: PushReadableStream
  writePromise :: "PromiseResolver option"
  writable :: WritableStream
  closed :: bool
  socket :: AdbSocket

type_synonym heap = "nat \<Rightarrow> AdbSocketController"

definition AdbSocket_new :: "nat \<Rightarrow> AdbSocket" where
  "AdbSocket_new controller' = \<lparr>controller = controller'\<rparr>"

text \<open>
  The constructor; \<open>this\<close> is the address of the object under construction.
  \<^verbatim>\<open>options.highWaterMark ?? 16 * 1024\<close> takes the default only for \<^verbatim>\<open>undefined\<close>.
\<close>

definition AdbSocketController_new ::
  "nat \<Rightarrow> AdbSocketConstructionOptions \<Rightarrow> AdbSocketController"
where
  "AdbSocketController_new this opts =
     \<lparr>localId = localId opts, remoteId = remoteId opts,
      localCreated = localCreated opts, serviceString = serviceString opts,
      dispatcher = dispatcher opts, highWaterMark = highWaterMark opts,
      factory = \<lparr>writableClosed = False\<rparr>,
      readable =
        \<lparr>strategy =
           \<lparr>strategy_highWaterMark =
              (case highWaterMark opts of None \<Rightarrow> 16 * 1024 | Some h \<Rightarrow> h),
            strategy_size = (\<lambda>chunk. length chunk)\<rparr>,
         queue = []\<rparr>,
      writePromise = None,
      writable = \<lparr>chunkStream_size = maxPayloadSize (options (dispatcher opts))\<rparr>,
      closed = False,
      socket = AdbSocket_new this\<rparr>"

text \<open>The two callbacks given to the \<^verbatim>\<open>DuplexStreamFactory\<close>.\<close>

definition close_callback :: "AdbSocketController \<Rightarrow> bool \<times> AdbSocketController" where
  "close_callback c =
     (False, c\<lparr>dispatcher := sendPacket (dispatcher c) Close (localId c) (remoteId c) []\<rparr>)"

definition dispose_callback :: "AdbSocketController \<Rightarrow> AdbSocketController" where
  "dispose_callback c =
     (let c1 = c\<lparr>closed := True\<rparr>
      in c1\<lparr>writePromise := map_option (reject (Error ''Socket closed'')) (writePromise c1)\<rparr>)"

text \<open>
  The \<^verbatim>\<open>write\<close> callback of the sink, up to its second \<^verbatim>\<open>await\<close>: it stores a new
  \<^verbatim>\<open>PromiseResolver\<close>, then sends the packet (the first \<^verbatim>\<open>await\<close>, on \<^verbatim>\<open>sendPacket\<close>, is
  taken to settle at once). From there the call waits for the stored promise:
  \<open>write_status\<close> reads what has become of it (\<open>None\<close> before the first write).
\<close>

definition write_callback :: "bytes \<Rightarrow> AdbSocketController \<Rightarrow> AdbSocketController" where
  "write_callback chunk c =
     (let c1 = c\<lparr>writePromise := Some Pending\<rparr>
      in c1\<lparr>dispatcher := sendPacket (dispatcher c1) Write (localId c1) (remoteId c1) chunk\<rparr>)"

definition write_status :: "AdbSocketController \<Rightarrow> async_outcome option" where
  "write_status c =
     (case writePromise c of
        None \<Rightarrow> None
      | Some Pending \<Rightarrow> Some Suspended
      | Some Resolved \<Rightarrow> Some Returned
      | Some (Rejected e) \<Rightarrow> Some (Threw e))"

text \<open>
  The methods of the controller. \<^verbatim>\<open>x?.f()\<close> does nothing when \<^verbatim>\<open>x\<close> is \<^verbatim>\<open>undefined\<close>.
  \<^verbatim>\<open>enqueue\<close> passes the packet to the controller of the \<^verbatim>\<open>PushReadableStream\<close>, which
  (modelled from the spec: "inbound \<^verbatim>\<open>WRTE\<close> payloads are enqueued into the readable half in
  the order received") appends it to the queue.
\<close>

definition enqueue :: "bytes \<Rightarrow> AdbSocketController \<Rightarrow> AdbSocketController" where
  "enqueue packet c = c\<lparr>readable := (readable c)\<lparr>queue := queue (readable c) @ [packet]\<rparr>\<rparr>"

definition ack :: "AdbSocketController \<Rightarrow> AdbSocketController" where
  "ack c = c\<lparr>writePromise := map_option resolve (writePromise c)\<rparr>"

definition AdbSocketController_close :: "AdbSocketController \<Rightarrow> AdbSocketController" where
  "AdbSocketController_close c =
     (case DuplexStreamFactory_close close_callback dispose_callback (factory c, c) of
        (f, c') \<Rightarrow> c'\<lparr>factory := f\<rparr>)"

definition AdbSocketController_dispose :: "AdbSocketController \<Rightarrow> AdbSocketController" where
  "AdbSocketController_dispose c = DuplexStreamFactory_dispose dispose_callback c"

text \<open>
  The getters and the \<^verbatim>\<open>close\<close> method of \<^verbatim>\<open>AdbSocket\<close>, in a store \<open>h\<close>. A method that
  changes the controller returns the store with the controller replaced.
\<close>

definition AdbSocket_localId :: "heap \<Rightarrow> AdbSocket \<Rightarrow> nat" where
  "AdbSocket_localId h s = localId (h (controller s))"

definition AdbSocket_remoteId :: "heap \<Rightarrow> AdbSocket \<Rightarrow> nat" where
  "AdbSocket_remoteId h s = remoteId (h (controller s))"

definition AdbSocket_localCreated :: "heap \<Rightarrow> AdbSocket \<Rightarrow> bool" where
  "AdbSocket_localCreated h s = localCreated (h (controller s))"

definition AdbSocket_serviceString :: "heap \<Rightarrow> AdbSocket \<Rightarrow> string" where
  "AdbSocket_serviceString h s = serviceString (h (controller s))"

definition AdbSocket_readable :: "heap \<Rightarrow> AdbSocket \<Rightarrow> PushReadableStream" where
  "AdbSocket_readable h s = readable (h (controller s))"

definition AdbSocket_writable :: "heap \<Rightarrow> AdbSocket \<Rightarrow> WritableStream" where
  "AdbSocket_writable h s = writable (h (controller s))"

definition heap_call :: "(AdbSocketController \<Rightarrow> AdbSocketController) \<Rightarrow> heap \<Rightarrow> nat \<Rightarrow> heap" where
  "heap_call method h this = h(this := method (h this))"

definition AdbSocket_close :: "heap \<Rightarrow> AdbSocket \<Rightarrow> heap" where
  "AdbSocket_close h s = heap_call AdbSocketController_close h (controller s)"

subsection \<open>The life of a socket\<close>

text \<open>
  What happens to a socket, one event at a time: the writable stream calls the sink's
  \<^verbatim>\<open>write\<close> callback with a chunk; the dispatcher calls \<^verbatim>\<open>ack()\<close> for an \<^verbatim>\<open>OKAY\<close>,
  \<^verbatim>\<open>enqueue(payload)\<close> for a \<^verbatim>\<open>WRTE\<close>, and \<^verbatim>\<open>dispose()\<close> for a \<^verbatim>\<open>CLSE\<close> or at its teardown;
  the user calls \<^verbatim>\<open>close()\<close>.

  A \<^verbatim>\<open>WritableStream\<close> of the Streams standard calls its sink's \<^verbatim>\<open>write\<close> only when the
  promise of the previous call has fulfilled, and never again once one has rejected:
  \<open>sink_idle\<close>. In a state that is not idle the event \<open>CallWrite\<close> cannot happen
  (\<open>step\<close> gives \<open>None\<close>). Every other event can happen in every state. (\<open>CallWrite\<close> is
  the call of the sink itself; what stands in front of the sink is in \<open>writable_write\<close>
  below.)
\<close>

datatype event = CallWrite bytes | CallAck | CallEnqueue bytes | CallClose | CallDispose

definition sink_idle :: "AdbSocketController \<Rightarrow> bool" where
  "sink_idle c = (write_status c = None \<or> write_status c = Some Returned)"

fun step :: "event \<Rightarrow> AdbSocketController \<Rightarrow> AdbSocketController option" where
  "step (CallWrite chunk) c = (if sink_idle c then Some (write_callback chunk c) else None)"
| "step CallAck c = Some (ack c)"
| "step (CallEnqueue packet) c = Some (enqueue packet c)"
| "step CallClose c = Some (AdbSocketController_close c)"
| "step CallDispose c = Some (AdbSocketController_dispose c)"

fun run :: "event list \<Rightarrow> AdbSocketController \<Rightarrow> AdbSocketController option" where
  "run [] c = Some c"
| "run (e # es) c = (case step e c of None \<Rightarrow> None | Some c' \<Rightarrow> run es c')"

text \<open>
  The packets sent between an earlier state \<open>c\<close> and a later state \<open>c'\<close>, the \<^verbatim>\<open>WRTE\<close>
  packets among them, the \<^verbatim>\<open>OKAY\<close>s received in a sequence of events, and those of them
  that arrived while a write was waiting for its acknowledgement.
\<close>

definition packets_sent :: "AdbSocketController \<Rightarrow> AdbSocketController \<Rightarrow> AdbPacketInit list" where
  "packets_sent c c' = drop (length (sent (dispatcher c))) (sent (dispatcher c'))"

definition WRTE_sent :: "AdbSocketController \<Rightarrow> AdbSocketController \<Rightarrow> nat" where
  "WRTE_sent c c' = length (filter (\<lambda>p. pkt_command p = Write) (packets_sent c c'))"

definition OKAY_received :: "event list \<Rightarrow> nat" where
  "OKAY_received es = length (filter (\<lambda>e. e = CallAck) es)"

fun OKAY_awaited :: "event list \<Rightarrow> AdbSocketController \<Rightarrow> nat" where
  "OKAY_awaited [] c = 0"
| "OKAY_awaited (e # es) c =
     (case step e c of
        None \<Rightarrow> 0
      | Some c' \<Rightarrow>
          (if e = CallAck \<and> writePromise c = Some Pending then 1 else 0) + OKAY_awaited es c')"


text \<open>
  Modelled from the spec: the states of an established socket. "Initiate local close: send
  \<^verbatim>\<open>CLSE(localId, remoteId)\<close>; do NOT dispose local state yet. State \<open>\<rightarrow>\<close> \<^verbatim>\<open>HALF_CLOSED\<close>. Further
  outbound writes fail with \<^verbatim>\<open>SocketClosed\<close>", and "Peer close arrives: dispose local state
  ... State \<open>\<rightarrow>\<close> \<^verbatim>\<open>CLOSED\<close>".
\<close>

datatype socket_state = ESTABLISHED | HALF_CLOSED | CLOSED

definition socket_state_of :: "AdbSocketController \<Rightarrow> socket_state" where
  "socket_state_of c =
     (if closed c then CLOSED
      else if writableClosed (factory c) then HALF_CLOSED
      else ESTABLISHED)"




text \<open>
  The packets that one event hands to the dispatcher, the number of writes of a state that
  are unacknowledged (0 or 1), and what becomes of a write that is waiting when the events
  \<open>es\<close> follow: it returns at the first \<^verbatim>\<open>OKAY\<close>, throws when the socket is disposed
  first, and stays suspended otherwise.
\<close>

fun event_packets :: "event \<Rightarrow> AdbSocketController \<Rightarrow> AdbPacketInit list" where
  "event_packets (CallWrite chunk) c = [Packet Write (localId c) (remoteId c) chunk]"
| "event_packets CallClose c = [Packet Close (localId c) (remoteId c) []]"
| "event_packets e c = []"

definition in_flight :: "AdbSocketController \<Rightarrow> int" where
  "in_flight c = (if sink_idle c then 0 else 1)"

definition write_completion :: "event list \<Rightarrow> async_outcome" where
  "write_completion es =
     (case find (\<lambda>e. e = CallAck \<or> e = CallDispose) es of
        None \<Rightarrow> Suspended
      | Some e \<Rightarrow> if e = CallAck then Returned else Threw (Error ''Socket closed''))"

text \<open>
  Example data: the options of a socket opened for \<^verbatim>\<open>shell:echo hi\<close> with local id 1 and
  remote id 7 on a dispatcher whose payload limit is 4, the socket constructed from them at
  address 0, that socket with a write of one chunk waiting, and ten bytes to write.
\<close>

definition example_options :: AdbSocketConstructionOptions where
  "example_options =
     \<lparr>localId = 1, remoteId = 7, localCreated = True, serviceString = ''shell:echo hi'',
      dispatcher = \<lparr>options = \<lparr>maxPayloadSize = 4\<rparr>, sent = []\<rparr>,
      highWaterMark = None\<rparr>"

definition example_socket :: AdbSocketController where
  "example_socket = AdbSocketController_new 0 example_options"

definition example_writing :: AdbSocketController where
  "example_writing = write_callback [0x41, 0x42] example_socket"


section \<open>Properties of \<^verbatim>\<open>findUsbEndpoints\<close>\<close>



lemma loop_result_directions:
  "loop_vars_ok inE outE \<Longrightarrow> findUsbEndpoints_loop inE outE eps = Inr r \<Longrightarrow>
   direction (inEndpoint r) = In \<and> direction (outEndpoint r) = Out"
proof (induction eps arbitrary: inE outE)
  case Nil
  then show ?case by (simp split: if_splits)
next
  case (Cons e eps)
  show ?case
  proof (cases "direction e")
    case In
    show ?thesis
    proof (cases outE)
      case None
      have "loop_vars_ok (Some e) outE"
        using In None by (simp add: loop_vars_ok_def)
      moreover have "findUsbEndpoints_loop (Some e) outE eps = Inr r"
        using Cons.prems(2) In None by simp
      ultimately show ?thesis by (rule Cons.IH)
    next
      case (Some out)
      then show ?thesis
        using Cons.prems In by (auto simp: loop_vars_ok_def)
    qed
  next
    case Out
    show ?thesis
    proof (cases inE)
      case None
      have "loop_vars_ok inE (Some e)"
        using Out None by (simp add: loop_vars_ok_def)
      moreover have "findUsbEndpoints_loop inE (Some e) eps = Inr r"
        using Cons.prems(2) Out None by simp
      ultimately show ?thesis by (rule Cons.IH)
    next
      case (Some inp)
      then show ?thesis
        using Cons.prems Out by (auto simp: loop_vars_ok_def)
    qed
  qed
qed

lemma loop_not_unreachable:
  "inE = None \<or> outE = None \<Longrightarrow>
   findUsbEndpoints_loop inE outE eps \<noteq> Inl (Error ''unreachable'')"
  by (induction eps arbitrary: inE outE)
     (auto split: USBDirection.splits option.splits)

lemma loop_returns_pair:
  "inE = None \<or> outE = None \<Longrightarrow>
   inE \<noteq> None \<or> (\<exists>e \<in> set eps. direction e = In) \<Longrightarrow>
   outE \<noteq> None \<or> (\<exists>e \<in> set eps. direction e = Out) \<Longrightarrow>
   \<exists>r. findUsbEndpoints_loop inE outE eps = Inr r"
proof (induction eps arbitrary: inE outE)
  case Nil
  then show ?case by auto
next
  case (Cons e eps)
  show ?case
  proof (cases "direction e")
    case In
    show ?thesis
    proof (cases outE)
      case None
      have "\<exists>r. findUsbEndpoints_loop (Some e) outE eps = Inr r"
        using Cons.prems In None by (intro Cons.IH) auto
      then show ?thesis using In None by simp
    next
      case (Some out)
      then show ?thesis using In by simp
    qed
  next
    case Out
    show ?thesis
    proof (cases inE)
      case None
      have "\<exists>r. findUsbEndpoints_loop inE (Some e) eps = Inr r"
        using Cons.prems Out None by (intro Cons.IH) auto
      then show ?thesis using Out None by simp
    next
      case (Some inp)
      then show ?thesis using Out by simp
    qed
  qed
qed

text \<open>
  Claim C10. For every list of USB endpoints, \<^verbatim>\<open>findUsbEndpoints\<close> either throws or returns
  a pair whose \<^verbatim>\<open>inEndpoint\<close> has direction \<^verbatim>\<open>"in"\<close> and whose \<^verbatim>\<open>outEndpoint\<close> has direction
  \<^verbatim>\<open>"out"\<close>; whenever the list holds at least one endpoint of each direction it returns
  such a pair; and the final \<^verbatim>\<open>throw new Error("unreachable")\<close> is never executed.
\<close>

theorem findUsbEndpoints_pair:
  "(\<forall>r. findUsbEndpoints eps = Inr r \<longrightarrow>
        direction (inEndpoint r) = In \<and> direction (outEndpoint r) = Out) \<and>
   ((\<exists>e \<in> set eps. direction e = In) \<and> (\<exists>e \<in> set eps. direction e = Out) \<longrightarrow>
        (\<exists>r. findUsbEndpoints eps = Inr r)) \<and>
   findUsbEndpoints eps \<noteq> Inl (Error ''unreachable'')"
proof (intro conjI allI impI)
  fix r
  assume "findUsbEndpoints eps = Inr r"
  then have "findUsbEndpoints_loop None None eps = Inr r"
    by (simp add: findUsbEndpoints_def split: if_splits)
  moreover have "loop_vars_ok None None"
    by (simp add: loop_vars_ok_def)
  ultimately show "direction (inEndpoint r) = In" and "direction (outEndpoint r) = Out"
    using loop_result_directions by blast+
next
  assume both: "(\<exists>e \<in> set eps. direction e = In) \<and> (\<exists>e \<in> set eps. direction e = Out)"
  then have "eps \<noteq> []" by auto
  moreover have "\<exists>r. findUsbEndpoints_loop None None eps = Inr r"
    using both by (intro loop_returns_pair) auto
  ultimately show "\<exists>r. findUsbEndpoints eps = Inr r"
    by (simp add: findUsbEndpoints_def)
next
  show "findUsbEndpoints eps \<noteq> Inl (Error ''unreachable'')"
    using loop_not_unreachable [of None None eps]
    by (simp add: findUsbEndpoints_def)
qed

theorem findUsbEndpoints_pair_witness:
  "findUsbEndpoints
     [\<lparr>endpointNumber = 1, direction = Out\<rparr>, \<lparr>endpointNumber = 2, direction = In\<rparr>,
      \<lparr>endpointNumber = 3, direction = Out\<rparr>] =
     Inr \<lparr>inEndpoint = \<lparr>endpointNumber = 2, direction = In\<rparr>,
          outEndpoint = \<lparr>endpointNumber = 1, direction = Out\<rparr>\<rparr> \<and>
   direction (inEndpoint \<lparr>inEndpoint = \<lparr>endpointNumber = 2, direction = In\<rparr>,
          outEndpoint = \<lparr>endpointNumber = 1, direction = Out\<rparr>\<rparr>) = In \<and>
   findUsbEndpoints [\<lparr>endpointNumber = 1, direction = Out\<rparr>] =
     Inl (Error ''No input endpoint found.'')"
  using findUsbEndpoints_pair
    [of "[\<lparr>endpointNumber = 1, direction = Out\<rparr>, \<lparr>endpointNumber = 2, direction = In\<rparr>,
          \<lparr>endpointNumber = 3, direction = Out\<rparr>]"]
  by (simp add: findUsbEndpoints_def)

section \<open>Properties of the inbound \<^verbatim>\<open>pull\<close>\<close>

lemma example_deserialize_1:
  "AdbPacketHeader_deserialize (Uint8ArrayStructDeserializeStream_new (example_header_bytes 1)) =
     Inr (example_header 1)"
  by (simp add: AdbPacketHeader_deserialize_def then_read_def read_u32_def read_def
      Uint8ArrayStructDeserializeStream_new_def example_header_bytes_def example_header_def)

lemma example_deserialize_0:
  "AdbPacketHeader_deserialize (Uint8ArrayStructDeserializeStream_new (example_header_bytes 0)) =
     Inr (example_header 0)"
  by (simp add: AdbPacketHeader_deserialize_def then_read_def read_u32_def read_def
      Uint8ArrayStructDeserializeStream_new_def example_header_bytes_def example_header_def)

lemma pull_first_read:
  "pull deserialize ep st = (outcome, st') \<Longrightarrow>
   \<exists>calls. transfers (device st') = transfers (device st) @ (endpointNumber ep, 24) # calls \<and>
           length calls \<le> 1"
  by (auto simp: pull_def transferIn_def Let_def
      split: list.splits sum.splits option.splits if_splits)

lemma pull_enqueues_once:
  "pull deserialize ep st = (outcome, st') \<Longrightarrow>
   (if outcome = Returned then \<exists>packet. enqueued st' = enqueued st @ [packet]
    else enqueued st' = enqueued st)"
  by (auto simp: pull_def transferIn_def Let_def
      split: list.splits sum.splits option.splits if_splits)

lemma pull_no_payload:
  "pull deserialize ep st = (outcome, st') \<Longrightarrow>
   responses (device st) = Inr r1 # rest \<Longrightarrow> data r1 = Some buf \<Longrightarrow>
   deserialize (Uint8ArrayStructDeserializeStream_new buf) = Inr h \<Longrightarrow>
   payloadLength h = 0 \<Longrightarrow>
   outcome = Returned \<and>
   transfers (device st') = transfers (device st) @ [(endpointNumber ep, 24)] \<and>
   responses (device st') = rest \<and>
   enqueued st' = enqueued st @
     [\<lparr>command = command h, arg0 = arg0 h, arg1 = arg1 h, payloadLength = payloadLength h,
       checksum = checksum h, magic = magic h, payload = []\<rparr>]"
  by (auto simp: pull_def transferIn_def Let_def EMPTY_UINT8_ARRAY_def with_payload_def)

lemma pull_payload_read:
  "pull deserialize ep st = (outcome, st') \<Longrightarrow>
   responses (device st) = Inr r1 # rest \<Longrightarrow> data r1 = Some buf \<Longrightarrow>
   deserialize (Uint8ArrayStructDeserializeStream_new buf) = Inr h \<Longrightarrow>
   payloadLength h \<noteq> 0 \<Longrightarrow>
   transfers (device st') =
     transfers (device st) @ [(endpointNumber ep, 24), (endpointNumber ep, unat (payloadLength h))]"
  by (auto simp: pull_def transferIn_def Let_def
      split: list.splits sum.splits option.splits)

lemma pull_payload:
  "pull deserialize ep st = (outcome, st') \<Longrightarrow>
   responses (device st) = Inr r1 # Inr r2 # rest2 \<Longrightarrow> data r1 = Some buf \<Longrightarrow>
   deserialize (Uint8ArrayStructDeserializeStream_new buf) = Inr h \<Longrightarrow>
   payloadLength h \<noteq> 0 \<Longrightarrow> data r2 = Some p \<Longrightarrow>
   outcome = Returned \<and> responses (device st') = rest2 \<and>
   enqueued st' = enqueued st @
     [\<lparr>command = command h, arg0 = arg0 h, arg1 = arg1 h, payloadLength = payloadLength h,
       checksum = checksum h, magic = magic h, payload = p\<rparr>]"
  by (auto simp: pull_def transferIn_def Let_def with_payload_def)

text \<open>
  Claim C7. Each pull on the inbound stream of the WebUSB adapter performs one bulk read of
  exactly 24 bytes (\<^verbatim>\<open>transferIn\<close> with length 24) and deserializes the packet header from
  the bytes it returns; it then performs a second bulk read, of exactly \<^verbatim>\<open>payloadLength\<close>
  bytes, if and only if the header's \<^verbatim>\<open>payloadLength\<close> is not zero, and the bytes that read
  returns are the payload of the packet; when \<^verbatim>\<open>payloadLength\<close> is zero the payload is the
  empty array and there is no second read; a pull that returns has enqueued exactly one
  packet, which has the six fields of the decoded header and that payload. (A pull whose
  transfer or decoding throws, or whose transfer does not settle, has not returned: it has
  made at most the two reads and enqueued nothing.)
\<close>

theorem pull_framing:
  assumes "pull deserialize ep st = (outcome, st')"
  shows
    "(\<exists>calls. transfers (device st') = transfers (device st) @ (endpointNumber ep, 24) # calls \<and>
             length calls \<le> 1) \<and>
     (if outcome = Returned then \<exists>packet. enqueued st' = enqueued st @ [packet]
      else enqueued st' = enqueued st) \<and>
     (\<forall>r1 rest buf h.
        responses (device st) = Inr r1 # rest \<and> data r1 = Some buf \<and>
        deserialize (Uint8ArrayStructDeserializeStream_new buf) = Inr h \<longrightarrow>
        (if payloadLength h = 0
         then outcome = Returned \<and>
              transfers (device st') = transfers (device st) @ [(endpointNumber ep, 24)] \<and>
              enqueued st' = enqueued st @
                [\<lparr>command = command h, arg0 = arg0 h, arg1 = arg1 h,
                  payloadLength = payloadLength h, checksum = checksum h, magic = magic h,
                  payload = []\<rparr>]
         else transfers (device st') =
                transfers (device st) @
                  [(endpointNumber ep, 24), (endpointNumber ep, unat (payloadLength h))] \<and>
              (\<forall>r2 rest2 p. rest = Inr r2 # rest2 \<and> data r2 = Some p \<longrightarrow>
                 outcome = Returned \<and>
                 enqueued st' = enqueued st @
                   [\<lparr>command = command h, arg0 = arg0 h, arg1 = arg1 h,
                     payloadLength = payloadLength h, checksum = checksum h, magic = magic h,
                     payload = p\<rparr>])))"
proof (intro conjI allI impI)
  show "\<exists>calls. transfers (device st') = transfers (device st) @ (endpointNumber ep, 24) # calls \<and>
          length calls \<le> 1"
    using assms by (rule pull_first_read)
  show "if outcome = Returned then \<exists>packet. enqueued st' = enqueued st @ [packet]
        else enqueued st' = enqueued st"
    using assms by (rule pull_enqueues_once)
next
  fix r1 rest buf h
  assume a: "responses (device st) = Inr r1 # rest \<and> data r1 = Some buf \<and>
             deserialize (Uint8ArrayStructDeserializeStream_new buf) = Inr h"
  then have r: "responses (device st) = Inr r1 # rest" and d: "data r1 = Some buf"
    and h: "deserialize (Uint8ArrayStructDeserializeStream_new buf) = Inr h"
    by simp_all
  show "if payloadLength h = 0
         then outcome = Returned \<and>
              transfers (device st') = transfers (device st) @ [(endpointNumber ep, 24)] \<and>
              enqueued st' = enqueued st @
                [\<lparr>command = command h, arg0 = arg0 h, arg1 = arg1 h,
                  payloadLength = payloadLength h, checksum = checksum h, magic = magic h,
                  payload = []\<rparr>]
         else transfers (device st') =
                transfers (device st) @
                  [(endpointNumber ep, 24), (endpointNumber ep, unat (payloadLength h))] \<and>
              (\<forall>r2 rest2 p. rest = Inr r2 # rest2 \<and> data r2 = Some p \<longrightarrow>
                 outcome = Returned \<and>
                 enqueued st' = enqueued st @
                   [\<lparr>command = command h, arg0 = arg0 h, arg1 = arg1 h,
                     payloadLength = payloadLength h, checksum = checksum h, magic = magic h,
                     payload = p\<rparr>])"
  proof (cases "payloadLength h = 0")
    case True
    then show ?thesis using pull_no_payload [OF assms r d h] by simp
  next
    case False
    have "\<forall>r2 rest2 p. rest = Inr r2 # rest2 \<and> data r2 = Some p \<longrightarrow>
            outcome = Returned \<and>
            enqueued st' = enqueued st @
              [\<lparr>command = command h, arg0 = arg0 h, arg1 = arg1 h,
                payloadLength = payloadLength h, checksum = checksum h, magic = magic h,
                payload = p\<rparr>]"
    proof (intro allI impI)
      fix r2 rest2 p
      assume b: "rest = Inr r2 # rest2 \<and> data r2 = Some p"
      then have "responses (device st) = Inr r1 # Inr r2 # rest2" using r by simp
      from pull_payload [OF assms this d h False] b
      show "outcome = Returned \<and>
            enqueued st' = enqueued st @
              [\<lparr>command = command h, arg0 = arg0 h, arg1 = arg1 h,
                payloadLength = payloadLength h, checksum = checksum h, magic = magic h,
                payload = p\<rparr>]" by simp
    qed
    then show ?thesis using False pull_payload_read [OF assms r d h False] by simp
  qed
qed

theorem pull_framing_witness:
  "pull AdbPacketHeader_deserialize example_endpoint
     (example_device [Inr \<lparr>data = Some (example_header_bytes 1), status = StatusOk\<rparr>,
                      Inr \<lparr>data = Some [0x43], status = StatusOk\<rparr>]) =
     (Returned,
      \<lparr>device = \<lparr>responses = [], transfers = [(1, 24), (1, 1)]\<rparr>,
       enqueued =
         [\<lparr>command = 0x45545257, arg0 = 7, arg1 = 1, payloadLength = 1, checksum = 0,
           magic = 0xBAABADA8, payload = [0x43]\<rparr>]\<rparr>) \<and>
   pull AdbPacketHeader_deserialize example_endpoint
     (example_device [Inr \<lparr>data = Some (example_header_bytes 0), status = StatusOk\<rparr>]) =
     (Returned,
      \<lparr>device = \<lparr>responses = [], transfers = [(1, 24)]\<rparr>,
       enqueued =
         [\<lparr>command = 0x45545257, arg0 = 7, arg1 = 1, payloadLength = 0, checksum = 0,
           magic = 0xBAABADA8, payload = []\<rparr>]\<rparr>)"
proof -
  let ?s1 = "example_device [Inr \<lparr>data = Some (example_header_bytes 1), status = StatusOk\<rparr>,
                             Inr \<lparr>data = Some [0x43], status = StatusOk\<rparr>]"
  let ?s0 = "example_device [Inr \<lparr>data = Some (example_header_bytes 0), status = StatusOk\<rparr>]"
  obtain o1 t1 where p1: "pull AdbPacketHeader_deserialize example_endpoint ?s1 = (o1, t1)"
    by (cases "pull AdbPacketHeader_deserialize example_endpoint ?s1") blast
  obtain o0 t0 where p0: "pull AdbPacketHeader_deserialize example_endpoint ?s0 = (o0, t0)"
    by (cases "pull AdbPacketHeader_deserialize example_endpoint ?s0") blast
  have r1: "responses (device ?s1) =
      [Inr \<lparr>data = Some (example_header_bytes 1), status = StatusOk\<rparr>,
       Inr \<lparr>data = Some [0x43], status = StatusOk\<rparr>]"
    and r0: "responses (device ?s0) =
      [Inr \<lparr>data = Some (example_header_bytes 0), status = StatusOk\<rparr>]"
    and e: "enqueued ?s1 = []" "enqueued ?s0 = []"
      "transfers (device ?s1) = []" "transfers (device ?s0) = []"
    by (simp_all add: example_device_def)
  have n: "endpointNumber example_endpoint = 1"
    by (simp add: example_endpoint_def)
  have h1: "payloadLength (example_header 1) \<noteq> 0" and h0: "payloadLength (example_header 0) = 0"
    by (simp_all add: example_header_def)
  have a1: "o1 = Returned \<and> transfers (device t1) = [(1, 24), (1, 1)] \<and>
            enqueued t1 =
              [\<lparr>command = 0x45545257, arg0 = 7, arg1 = 1, payloadLength = 1, checksum = 0,
                magic = 0xBAABADA8, payload = [0x43]\<rparr>]"
    using pull_framing [OF p1] r1 example_deserialize_1 h1
    by (simp add: e n) (simp add: example_header_def)
  have a0: "o0 = Returned \<and> transfers (device t0) = [(1, 24)] \<and>
            enqueued t0 =
              [\<lparr>command = 0x45545257, arg0 = 7, arg1 = 1, payloadLength = 0, checksum = 0,
                magic = 0xBAABADA8, payload = []\<rparr>]"
    using pull_framing [OF p0] r0 example_deserialize_0 h0
    by (simp add: e n) (simp add: example_header_def)
  have q1: "responses (device t1) = []"
    using p1 by (simp add: pull_def transferIn_def Let_def example_device_def example_endpoint_def
        example_deserialize_1 example_header_def) auto
  have q0: "responses (device t0) = []"
    using p0 by (simp add: pull_def transferIn_def Let_def example_device_def example_endpoint_def
        example_deserialize_0 example_header_def) auto
  show ?thesis
    unfolding p1 p0 using a1 a0 q1 q0 by simp
qed

section \<open>Properties of the socket\<close>

subsection \<open>The methods, unfolded, and what one event changes\<close>

lemma ack_unchanged: "writePromise c \<noteq> Some Pending \<Longrightarrow> ack c = c"
  by (cases "writePromise c"; cases "the (writePromise c)") (auto simp: ack_def)

lemma dispose_unfold:
  "AdbSocketController_dispose c =
     c\<lparr>closed := True,
       writePromise := map_option (reject (Error ''Socket closed'')) (writePromise c)\<rparr>"
  by (simp add: AdbSocketController_dispose_def DuplexStreamFactory_dispose_def
      dispose_callback_def Let_def)

lemma close_unfold:
  "AdbSocketController_close c =
     c\<lparr>dispatcher := (dispatcher c)\<lparr>sent := sent (dispatcher c) @
          [Packet Close (localId c) (remoteId c) []]\<rparr>,
       factory := (factory c)\<lparr>writableClosed := True\<rparr>\<rparr>"
  by (simp add: AdbSocketController_close_def DuplexStreamFactory_close_def
      close_callback_def sendPacket_def)

lemma write_callback_unfold:
  "write_callback chunk c =
     c\<lparr>writePromise := Some Pending,
       dispatcher := (dispatcher c)\<lparr>sent := sent (dispatcher c) @
          [Packet Write (localId c) (remoteId c) chunk]\<rparr>\<rparr>"
  by (simp add: write_callback_def sendPacket_def Let_def)

lemma sink_idle_iff:
  "sink_idle c \<longleftrightarrow> writePromise c = None \<or> writePromise c = Some Resolved"
  by (cases "writePromise c"; cases "the (writePromise c)")
     (auto simp: sink_idle_def write_status_def)

lemma example_socket_fields:
  "writePromise example_socket = None" "closed example_socket = False"
  "localId example_socket = 1" "remoteId example_socket = 7"
  "sent (dispatcher example_socket) = []"
  "maxPayloadSize (options (dispatcher example_socket)) = 4"
  by (simp_all add: example_socket_def AdbSocketController_new_def example_options_def)

lemma example_writing_fields:
  "writePromise example_writing = Some Pending" "closed example_writing = False"
  "localId example_writing = 1" "remoteId example_writing = 7"
  "sent (dispatcher example_writing) = [Packet Write 1 7 [0x41, 0x42]]"
  by (simp_all add: example_writing_def write_callback_unfold example_socket_fields)

lemma step_sent:
  "step e c = Some c' \<Longrightarrow> sent (dispatcher c') = sent (dispatcher c) @ event_packets e c"
  by (cases e)
     (auto simp: write_callback_unfold close_unfold dispose_unfold ack_def enqueue_def
           split: if_splits)

lemma step_frame:
  "step e c = Some c' \<Longrightarrow>
     localId c' = localId c \<and> remoteId c' = remoteId c \<and>
     localCreated c' = localCreated c \<and> serviceString c' = serviceString c \<and>
     options (dispatcher c') = options (dispatcher c) \<and>
     strategy (readable c') = strategy (readable c) \<and> writable c' = writable c \<and>
     socket c' = socket c"
  by (cases e)
     (auto simp: write_callback_unfold close_unfold dispose_unfold ack_def enqueue_def
           split: if_splits)

lemma run_frame:
  "run es c = Some c' \<Longrightarrow>
     localId c' = localId c \<and> remoteId c' = remoteId c \<and>
     localCreated c' = localCreated c \<and> serviceString c' = serviceString c \<and>
     options (dispatcher c') = options (dispatcher c) \<and>
     strategy (readable c') = strategy (readable c) \<and> writable c' = writable c \<and>
     socket c' = socket c"
proof (induction es arbitrary: c)
  case Nil
  then show ?case by simp
next
  case (Cons e es)
  then obtain c1 where s: "step e c = Some c1" and r: "run es c1 = Some c'"
    by (auto split: option.splits)
  show ?case using step_frame [OF s] Cons.IH [OF r] by simp
qed

lemma run_sent_prefix:
  "run es c = Some c' \<Longrightarrow> \<exists>ps. sent (dispatcher c') = sent (dispatcher c) @ ps"
proof (induction es arbitrary: c)
  case Nil
  then show ?case by simp
next
  case (Cons e es)
  then obtain c1 where s: "step e c = Some c1" and r: "run es c1 = Some c'"
    by (auto split: option.splits)
  from Cons.IH [OF r] obtain ps where "sent (dispatcher c') = sent (dispatcher c1) @ ps" ..
  then show ?case using step_sent [OF s] by simp
qed

lemma packets_sent_step:
  "step e c = Some c' \<Longrightarrow> packets_sent c c' = event_packets e c"
  by (simp add: packets_sent_def step_sent)

lemma packets_sent_trans:
  assumes "step e c = Some c1" and "run es c1 = Some c'"
  shows "packets_sent c c' = event_packets e c @ packets_sent c1 c'"
proof -
  obtain ps where ps: "sent (dispatcher c') = sent (dispatcher c1) @ ps"
    using run_sent_prefix [OF assms(2)] ..
  show ?thesis
    by (simp add: packets_sent_def ps step_sent [OF assms(1)])
qed

subsection \<open>Acknowledgement with no write waiting\<close>

text \<open>
  Claim C6. Delivering an \<^verbatim>\<open>OKAY\<close> to a socket that has no write pending is a no-op:
  \<^verbatim>\<open>ack()\<close> called when the write promise is absent or already settled does not throw (the
  call is an optional call, and settling a settled promise does nothing) and leaves the
  whole state of the socket as it was.
\<close>

theorem ack_without_pending_write:
  "writePromise c \<noteq> Some Pending \<Longrightarrow> ack c = c \<and> step CallAck c = Some c"
  by (simp add: ack_unchanged)

theorem ack_without_pending_write_witness:
  "writePromise example_socket = None \<and> ack example_socket = example_socket \<and>
   writePromise (ack example_writing) = Some Resolved \<and>
   ack (ack example_writing) = ack example_writing"
  using ack_without_pending_write [of example_socket]
    ack_without_pending_write [of "ack example_writing"]
  by (simp add: example_socket_fields example_writing_fields ack_def)

subsection \<open>Dispose\<close>

text \<open>
  Claim C4. When a socket is disposed, its \<^verbatim>\<open>closed\<close> flag becomes true and a pending write
  promise is rejected with the error \<^verbatim>\<open>Socket closed\<close>, so the waiting write throws it; a
  socket with no pending write is disposed without error, and only its flag changes.
\<close>

theorem dispose_rejects_pending_write:
  "closed (AdbSocketController_dispose c) \<and>
   (writePromise c = Some Pending \<longrightarrow>
      writePromise (AdbSocketController_dispose c) = Some (Rejected (Error ''Socket closed'')) \<and>
      write_status (AdbSocketController_dispose c) = Some (Threw (Error ''Socket closed''))) \<and>
   (writePromise c \<noteq> Some Pending \<longrightarrow> AdbSocketController_dispose c = c\<lparr>closed := True\<rparr>)"
proof (intro conjI impI)
  show "closed (AdbSocketController_dispose c)"
    by (simp add: dispose_unfold)
next
  assume "writePromise c = Some Pending"
  then show "writePromise (AdbSocketController_dispose c) = Some (Rejected (Error ''Socket closed''))"
    and "write_status (AdbSocketController_dispose c) = Some (Threw (Error ''Socket closed''))"
    by (simp_all add: dispose_unfold write_status_def)
next
  assume "writePromise c \<noteq> Some Pending"
  then have "map_option (reject (Error ''Socket closed'')) (writePromise c) = writePromise c"
    by (cases "writePromise c"; cases "the (writePromise c)") auto
  then show "AdbSocketController_dispose c = c\<lparr>closed := True\<rparr>"
    by (simp add: dispose_unfold)
qed

theorem dispose_rejects_pending_write_witness:
  "writePromise example_writing = Some Pending \<and> closed example_writing = False \<and>
   closed (AdbSocketController_dispose example_writing) \<and>
   write_status (AdbSocketController_dispose example_writing) =
     Some (Threw (Error ''Socket closed'')) \<and>
   writePromise example_socket = None \<and>
   AdbSocketController_dispose example_socket = example_socket\<lparr>closed := True\<rparr>"
  using dispose_rejects_pending_write [of example_writing]
    dispose_rejects_pending_write [of example_socket]
  by (simp add: example_socket_fields example_writing_fields)

subsection \<open>Local close\<close>

lemma run_no_dispose:
  "run es c = Some c' \<Longrightarrow> CallDispose \<notin> set es \<Longrightarrow>
   closed c' = closed c \<and>
   ((\<forall>e. writePromise c \<noteq> Some (Rejected e)) \<longrightarrow> (\<forall>e. writePromise c' \<noteq> Some (Rejected e)))"
proof (induction es arbitrary: c)
  case Nil
  then show ?case by simp
next
  case (Cons e es)
  then obtain c1 where s: "step e c = Some c1" and r: "run es c1 = Some c'"
    by (auto split: option.splits)
  have nd: "e \<noteq> CallDispose" "CallDispose \<notin> set es" using Cons.prems(2) by auto
  have one: "closed c1 = closed c \<and>
     ((\<forall>x. writePromise c \<noteq> Some (Rejected x)) \<longrightarrow> (\<forall>x. writePromise c1 \<noteq> Some (Rejected x)))"
  proof (cases e)
    case CallAck
    then have c1: "c1 = ack c" using s by simp
    show ?thesis
      by (cases "writePromise c"; cases "the (writePromise c)") (auto simp: c1 ack_def)
  qed (use s nd in \<open>auto simp: write_callback_unfold close_unfold enqueue_def split: if_splits\<close>)
  show ?case using one Cons.IH [OF r nd(2)] by simp
qed

text \<open>
  Claim C5. Initiating a local close on a socket sends exactly one \<^verbatim>\<open>CLSE(localId, remoteId)\<close>
  packet and does not dispose local state: after \<^verbatim>\<open>close()\<close>, and through every sequence of
  later events in which the socket is not disposed (the peer's \<^verbatim>\<open>CLSE\<close> has not been
  dispatched), the \<^verbatim>\<open>closed\<close> flag is what it was and a write promise that was not rejected
  is not rejected.
\<close>

theorem close_sends_CLSE_without_dispose:
  "packets_sent c (AdbSocketController_close c) = [Packet Close (localId c) (remoteId c) []] \<and>
   closed (AdbSocketController_close c) = closed c \<and>
   writePromise (AdbSocketController_close c) = writePromise c \<and>
   (\<forall>es c'. run es (AdbSocketController_close c) = Some c' \<and> CallDispose \<notin> set es \<longrightarrow>
      closed c' = closed c \<and>
      ((\<forall>e. writePromise c \<noteq> Some (Rejected e)) \<longrightarrow> (\<forall>e. writePromise c' \<noteq> Some (Rejected e))))"
proof (intro conjI allI impI)
  show "packets_sent c (AdbSocketController_close c) = [Packet Close (localId c) (remoteId c) []]"
    by (simp add: packets_sent_def close_unfold)
  show cl: "closed (AdbSocketController_close c) = closed c"
    by (simp add: close_unfold)
  show wp: "writePromise (AdbSocketController_close c) = writePromise c"
    by (simp add: close_unfold)
  fix es c'
  assume a: "run es (AdbSocketController_close c) = Some c' \<and> CallDispose \<notin> set es"
  then have r: "run es (AdbSocketController_close c) = Some c'" and n: "CallDispose \<notin> set es"
    by simp_all
  show "closed c' = closed c"
    using run_no_dispose [OF r n] cl by simp
  fix e
  assume "\<forall>e. writePromise c \<noteq> Some (Rejected e)"
  then show "writePromise c' \<noteq> Some (Rejected e)"
    using run_no_dispose [OF r n] wp by simp
qed

theorem close_sends_CLSE_without_dispose_witness:
  "packets_sent example_writing (AdbSocketController_close example_writing) =
     [Packet Close 1 7 []] \<and>
   closed (AdbSocketController_close example_writing) = False \<and>
   writePromise (AdbSocketController_close example_writing) = Some Pending \<and>
   run [CallEnqueue [0x43]] (AdbSocketController_close example_writing) =
     Some (enqueue [0x43] (AdbSocketController_close example_writing)) \<and>
   closed (enqueue [0x43] (AdbSocketController_close example_writing)) = False \<and>
   writePromise (enqueue [0x43] (AdbSocketController_close example_writing)) = Some Pending"
proof -
  have r: "run [CallEnqueue [0x43]] (AdbSocketController_close example_writing) =
     Some (enqueue [0x43] (AdbSocketController_close example_writing)) \<and>
     CallDispose \<notin> set [CallEnqueue [0x43]]"
    by simp
  have p: "writePromise (enqueue [0x43] (AdbSocketController_close example_writing)) = Some Pending"
    by (simp add: enqueue_def close_unfold example_writing_fields)
  from close_sends_CLSE_without_dispose [of example_writing] r
  have "closed (enqueue [0x43] (AdbSocketController_close example_writing)) = closed example_writing"
    by blast
  then have c: "closed (enqueue [0x43] (AdbSocketController_close example_writing)) = False"
    by (simp only: example_writing_fields)
  have "packets_sent example_writing (AdbSocketController_close example_writing) =
          [Packet Close 1 7 []] \<and>
        closed (AdbSocketController_close example_writing) = False \<and>
        writePromise (AdbSocketController_close example_writing) = Some Pending"
    using close_sends_CLSE_without_dispose [of example_writing]
    by (simp only: example_writing_fields)
  then show ?thesis using r p c by simp
qed

subsection \<open>The readable half and the public wrapper\<close>

text \<open>
  Claim C8. The socket's inbound readable queue is constructed with a size measure equal to
  each chunk's byte length and a high-water mark equal to the construction option
  \<^verbatim>\<open>highWaterMark\<close> when provided, and 16384 (16 * 1024) bytes otherwise; no event of the
  socket's life changes them.
\<close>

theorem readable_queuing_strategy:
  "run es (AdbSocketController_new this opts) = Some c \<Longrightarrow>
   strategy_size (strategy (readable c)) chunk = length chunk \<and>
   strategy_highWaterMark (strategy (readable c)) =
     (case highWaterMark opts of None \<Rightarrow> 16384 | Some h \<Rightarrow> h)"
  using run_frame [of es "AdbSocketController_new this opts" c]
  by (simp add: AdbSocketController_new_def split: option.splits)

theorem readable_queuing_strategy_witness:
  "run [CallEnqueue [0x43]] (AdbSocketController_new 0 example_options) =
     Some (enqueue [0x43] (AdbSocketController_new 0 example_options)) \<and>
   strategy_size (strategy (readable (enqueue [0x43] (AdbSocketController_new 0 example_options))))
     [0x43, 0x44] = 2 \<and>
   strategy_highWaterMark
     (strategy (readable (enqueue [0x43] (AdbSocketController_new 0 example_options)))) = 16384 \<and>
   strategy_highWaterMark
     (strategy (readable (AdbSocketController_new 0 (example_options\<lparr>highWaterMark := Some 0\<rparr>)))) = 0"
proof -
  have r: "run [CallEnqueue [0x43]] (AdbSocketController_new 0 example_options) =
     Some (enqueue [0x43] (AdbSocketController_new 0 example_options))"
    by simp
  have r0: "run [] (AdbSocketController_new 0 (example_options\<lparr>highWaterMark := Some 0\<rparr>)) =
     Some (AdbSocketController_new 0 (example_options\<lparr>highWaterMark := Some 0\<rparr>))"
    by simp
  show ?thesis
    using readable_queuing_strategy [OF r, of "[0x43, 0x44]"] readable_queuing_strategy [OF r0] r
    by (simp add: example_options_def)
qed

text \<open>
  Claim C9. For every controller, the public \<^verbatim>\<open>AdbSocket\<close> wrapper constructed over it is
  observationally equal to it at the public interface: in every store its \<^verbatim>\<open>localId\<close>,
  \<^verbatim>\<open>remoteId\<close>, \<^verbatim>\<open>localCreated\<close>, \<^verbatim>\<open>serviceString\<close>, \<^verbatim>\<open>readable\<close> and \<^verbatim>\<open>writable\<close> are the
  controller's, and \<^verbatim>\<open>AdbSocket.close()\<close> is the controller's \<^verbatim>\<open>close()\<close>. The wrapper that the
  controller's constructor stores is the wrapper over the controller itself.
\<close>

theorem AdbSocket_delegates:
  "AdbSocket_localId h (AdbSocket_new r) = localId (h r) \<and>
   AdbSocket_remoteId h (AdbSocket_new r) = remoteId (h r) \<and>
   AdbSocket_localCreated h (AdbSocket_new r) = localCreated (h r) \<and>
   AdbSocket_serviceString h (AdbSocket_new r) = serviceString (h r) \<and>
   AdbSocket_readable h (AdbSocket_new r) = readable (h r) \<and>
   AdbSocket_writable h (AdbSocket_new r) = writable (h r) \<and>
   AdbSocket_close h (AdbSocket_new r) = heap_call AdbSocketController_close h r \<and>
   socket (AdbSocketController_new r opts) = AdbSocket_new r"
  by (simp add: AdbSocket_localId_def AdbSocket_remoteId_def AdbSocket_localCreated_def
      AdbSocket_serviceString_def AdbSocket_readable_def AdbSocket_writable_def
      AdbSocket_close_def AdbSocket_new_def AdbSocketController_new_def)

theorem AdbSocket_delegates_witness:
  "AdbSocket_localId (\<lambda>a. example_socket) (socket example_socket) = 1 \<and>
   AdbSocket_remoteId (\<lambda>a. example_socket) (socket example_socket) = 7 \<and>
   AdbSocket_serviceString (\<lambda>a. example_socket) (socket example_socket) = ''shell:echo hi'' \<and>
   sent (dispatcher (AdbSocket_close (\<lambda>a. example_socket) (socket example_socket) 0)) =
     [Packet Close 1 7 []]"
  using AdbSocket_delegates [of "\<lambda>a. example_socket" 0 example_options]
  by (simp add: example_socket_def [symmetric] example_socket_fields heap_call_def close_unfold)
     (simp add: example_socket_def AdbSocketController_new_def example_options_def)

subsection \<open>A waiting write\<close>

lemma settled_stays:
  "writePromise c = Some p \<Longrightarrow> p \<noteq> Pending \<Longrightarrow> \<forall>chunk. CallWrite chunk \<notin> set es \<Longrightarrow>
   \<exists>c'. run es c = Some c' \<and> writePromise c' = Some p"
proof (induction es arbitrary: c)
  case Nil
  then show ?case by simp
next
  case (Cons e es)
  have nw: "\<forall>chunk. CallWrite chunk \<notin> set es" using Cons.prems(3) by simp
  have "\<exists>c1. step e c = Some c1 \<and> writePromise c1 = Some p"
  proof (cases e)
    case (CallWrite chunk)
    then show ?thesis using Cons.prems(3) by auto
  qed (use Cons.prems(1,2) in \<open>cases p; simp add: ack_def enqueue_def close_unfold dispose_unfold\<close>)+
  then obtain c1 where s: "step e c = Some c1" and w: "writePromise c1 = Some p" by blast
  show ?case using Cons.IH [OF w Cons.prems(2) nw] s by simp
qed

lemma pending_until_settled:
  "writePromise c = Some Pending \<Longrightarrow> \<forall>chunk. CallWrite chunk \<notin> set es \<Longrightarrow>
   \<exists>c'. run es c = Some c' \<and> write_status c' = Some (write_completion es)"
proof (induction es arbitrary: c)
  case Nil
  then show ?case by (simp add: write_status_def write_completion_def)
next
  case (Cons e es)
  have nw: "\<forall>chunk. CallWrite chunk \<notin> set es" using Cons.prems(2) by simp
  show ?case
  proof (cases e)
    case (CallWrite chunk)
    then show ?thesis using Cons.prems(2) by auto
  next
    case CallAck
    have "writePromise (ack c) = Some Resolved"
      using Cons.prems(1) by (simp add: ack_def)
    from settled_stays [OF this _ nw]
    obtain c' where "run es (ack c) = Some c'" "writePromise c' = Some Resolved" by auto
    then show ?thesis using CallAck by (simp add: write_status_def write_completion_def)
  next
    case CallDispose
    have "writePromise (AdbSocketController_dispose c) = Some (Rejected (Error ''Socket closed''))"
      using Cons.prems(1) by (simp add: dispose_unfold)
    from settled_stays [OF this _ nw]
    obtain c' where "run es (AdbSocketController_dispose c) = Some c'"
      "writePromise c' = Some (Rejected (Error ''Socket closed''))" by auto
    then show ?thesis using CallDispose by (simp add: write_status_def write_completion_def)
  next
    case (CallEnqueue packet)
    have "writePromise (enqueue packet c) = Some Pending"
      using Cons.prems(1) by (simp add: enqueue_def)
    from Cons.IH [OF this nw] show ?thesis
      using CallEnqueue by (simp add: write_completion_def)
  next
    case CallClose
    have "writePromise (AdbSocketController_close c) = Some Pending"
      using Cons.prems(1) by (simp add: close_unfold)
    from Cons.IH [OF this nw] show ?thesis
      using CallClose by (simp add: write_completion_def)
  qed
qed

text \<open>
  Claim C3. A pending write on a socket completes exactly when the dispatcher delivers the
  \<^verbatim>\<open>OKAY\<close>: the write callback creates the promise, pending, before it sends the \<^verbatim>\<open>WRTE\<close>;
  through every sequence of later events (before the stream's next call of the callback)
  the write is still suspended if no \<^verbatim>\<open>ack()\<close> and no \<^verbatim>\<open>dispose()\<close> has happened, has returned
  if \<^verbatim>\<open>ack()\<close> came first, and has thrown \<^verbatim>\<open>Socket closed\<close> if the socket was disposed first.
\<close>

theorem write_completes_on_ack_or_dispose:
  "\<forall>chunk'. CallWrite chunk' \<notin> set es \<Longrightarrow>
   writePromise (write_callback chunk c) = Some Pending \<and>
   (\<exists>c'. run es (write_callback chunk c) = Some c' \<and>
         write_status c' = Some (write_completion es))"
proof -
  assume nw: "\<forall>chunk'. CallWrite chunk' \<notin> set es"
  have p: "writePromise (write_callback chunk c) = Some Pending"
    by (simp add: write_callback_unfold)
  show ?thesis using p pending_until_settled [OF p nw] by simp
qed

theorem write_completes_on_ack_or_dispose_witness:
  "(\<exists>c'. run [CallEnqueue [0x43], CallClose] (write_callback [0x41] example_socket) = Some c' \<and>
         write_status c' = Some Suspended) \<and>
   (\<exists>c'. run [CallEnqueue [0x43], CallAck, CallDispose] (write_callback [0x41] example_socket) =
           Some c' \<and> write_status c' = Some Returned) \<and>
   (\<exists>c'. run [CallClose, CallDispose, CallAck] (write_callback [0x41] example_socket) = Some c' \<and>
         write_status c' = Some (Threw (Error ''Socket closed'')))"
  using write_completes_on_ack_or_dispose [of "[CallEnqueue [0x43], CallClose]" "[0x41]" example_socket]
    write_completes_on_ack_or_dispose
      [of "[CallEnqueue [0x43], CallAck, CallDispose]" "[0x41]" example_socket]
    write_completes_on_ack_or_dispose
      [of "[CallClose, CallDispose, CallAck]" "[0x41]" example_socket]
  by (simp add: write_completion_def)

subsection \<open>One write in flight\<close>

lemma step_in_flight:
  assumes "step e c = Some c1"
  shows "int (length (filter (\<lambda>p. pkt_command p = Write) (event_packets e c))) -
         (if e = CallAck \<and> writePromise c = Some Pending then 1 else 0) =
         in_flight c1 - in_flight c"
proof (cases e)
  case (CallWrite chunk)
  then show ?thesis using assms
    by (auto simp: in_flight_def sink_idle_iff write_callback_unfold split: if_splits)
next
  case CallAck
  then show ?thesis using assms
    by (cases "writePromise c"; cases "the (writePromise c)")
       (auto simp: in_flight_def sink_idle_iff ack_def)
next
  case (CallEnqueue packet)
  then show ?thesis using assms
    by (auto simp: in_flight_def sink_idle_iff enqueue_def)
next
  case CallClose
  then show ?thesis using assms
    by (auto simp: in_flight_def sink_idle_iff close_unfold)
next
  case CallDispose
  then show ?thesis using assms
    by (cases "writePromise c"; cases "the (writePromise c)")
       (auto simp: in_flight_def sink_idle_iff dispose_unfold)
qed

lemma run_in_flight:
  "run es c = Some c' \<Longrightarrow>
   int (WRTE_sent c c') - int (OKAY_awaited es c) = in_flight c' - in_flight c"
proof (induction es arbitrary: c)
  case Nil
  then show ?case by (simp add: WRTE_sent_def packets_sent_def)
next
  case (Cons e es)
  then obtain c1 where s: "step e c = Some c1" and r: "run es c1 = Some c'"
    by (auto split: option.splits)
  have w: "WRTE_sent c c' =
      length (filter (\<lambda>p. pkt_command p = Write) (event_packets e c)) + WRTE_sent c1 c'"
    by (simp add: WRTE_sent_def packets_sent_trans [OF s r])
  have a: "OKAY_awaited (e # es) c =
      (if e = CallAck \<and> writePromise c = Some Pending then 1 else 0) + OKAY_awaited es c1"
    using s by simp
  show ?case
    using step_in_flight [OF s] Cons.IH [OF r] unfolding w a by (simp split: if_splits)
qed

text \<open>
  Claim C1, as stated: for every socket, at every point in time, the number of \<^verbatim>\<open>WRTE\<close>
  packets the socket has sent minus the number of \<^verbatim>\<open>OKAY\<close> acknowledgements it has received
  is 0 or 1. It fails for a socket that receives an \<^verbatim>\<open>OKAY\<close> while no write is waiting:
  \<^verbatim>\<open>ack()\<close> then does nothing and the socket has sent no \<^verbatim>\<open>WRTE\<close>, so the difference is -1.
\<close>

theorem one_in_flight_counterexample:
  "run [CallAck] example_socket = Some example_socket \<and>
   int (WRTE_sent example_socket example_socket) - int (OKAY_received [CallAck]) = - 1"
  by (simp add: ack_unchanged example_socket_fields WRTE_sent_def packets_sent_def
      OKAY_received_def)

text \<open>
  Claim C1, amended. For every socket, at every point in time, the number of \<^verbatim>\<open>WRTE\<close>
  packets the socket has sent minus the number of \<^verbatim>\<open>OKAY\<close> acknowledgements it has received
  while a write was waiting is 0 or 1 (an \<^verbatim>\<open>OKAY\<close> that finds no write waiting is ignored
  and not counted); so the difference with all the \<^verbatim>\<open>OKAY\<close>s received is 0 or 1 whenever
  every one of them found a write waiting. For each chunk, the write callback sets the write
  promise to a new pending promise and sends exactly one \<^verbatim>\<open>WRTE(localId, remoteId, chunk)\<close>
  through the dispatcher, and while that promise is pending the callback cannot be called
  for another chunk.
\<close>

theorem one_write_in_flight:
  "run es (AdbSocketController_new this opts) = Some c \<Longrightarrow>
   int (WRTE_sent (AdbSocketController_new this opts) c) -
     int (OKAY_awaited es (AdbSocketController_new this opts)) = (if sink_idle c then 0 else 1) \<and>
   (OKAY_awaited es (AdbSocketController_new this opts) = OKAY_received es \<longrightarrow>
      int (WRTE_sent (AdbSocketController_new this opts) c) - int (OKAY_received es) \<in> {0, 1}) \<and>
   (\<forall>chunk c'. step (CallWrite chunk) c = Some c' \<longrightarrow>
      writePromise c' = Some Pending \<and>
      packets_sent c c' = [Packet Write (localId c) (remoteId c) chunk] \<and>
      (\<forall>chunk'. step (CallWrite chunk') c' = None))"
proof (intro conjI allI impI)
  assume r: "run es (AdbSocketController_new this opts) = Some c"
  have "in_flight (AdbSocketController_new this opts) = 0"
    by (simp add: in_flight_def sink_idle_iff AdbSocketController_new_def)
  then show d: "int (WRTE_sent (AdbSocketController_new this opts) c) -
     int (OKAY_awaited es (AdbSocketController_new this opts)) = (if sink_idle c then 0 else 1)"
    using run_in_flight [OF r] by (simp add: in_flight_def)
  assume "OKAY_awaited es (AdbSocketController_new this opts) = OKAY_received es"
  then show "int (WRTE_sent (AdbSocketController_new this opts) c) - int (OKAY_received es) \<in> {0, 1}"
    using d by (simp split: if_splits)
next
  fix chunk c'
  assume s: "step (CallWrite chunk) c = Some c'"
  then have c': "c' = write_callback chunk c" by (simp split: if_splits)
  show "writePromise c' = Some Pending"
    by (simp add: c' write_callback_unfold)
  show "packets_sent c c' = [Packet Write (localId c) (remoteId c) chunk]"
    using packets_sent_step [OF s] by simp
  fix chunk'
  show "step (CallWrite chunk') c' = None"
    by (simp add: c' write_callback_unfold sink_idle_iff)
qed

theorem one_write_in_flight_witness:
  "run [CallAck, CallWrite [0x41, 0x42]] (AdbSocketController_new 0 example_options) =
     Some example_writing \<and>
   \<not> sink_idle example_writing \<and>
   int (WRTE_sent (AdbSocketController_new 0 example_options) example_writing) -
     int (OKAY_awaited [CallAck, CallWrite [0x41, 0x42]] (AdbSocketController_new 0 example_options)) = 1 \<and>
   OKAY_awaited [CallAck, CallWrite [0x41, 0x42]] (AdbSocketController_new 0 example_options) = 0 \<and>
   OKAY_received [CallAck, CallWrite [0x41, 0x42]] = 1"
proof -
  have a: "ack example_socket = example_socket"
    by (simp add: ack_unchanged example_socket_fields)
  have i: "sink_idle example_socket"
    by (simp add: sink_idle_iff example_socket_fields)
  have r: "run [CallAck, CallWrite [0x41, 0x42]] (AdbSocketController_new 0 example_options) =
     Some example_writing"
    using a i by (simp add: example_socket_def [symmetric] example_writing_def)
  have n: "\<not> sink_idle example_writing"
    by (simp add: sink_idle_iff example_writing_fields)
  have k: "OKAY_awaited [CallAck, CallWrite [0x41, 0x42]] (AdbSocketController_new 0 example_options) = 0"
    using a i by (simp add: example_socket_def [symmetric] example_socket_fields)
  show ?thesis
    using one_write_in_flight [OF r] r n k by (simp add: OKAY_received_def)
qed

subsection \<open>Chunked writes\<close>





lemma step_state_mono:
  "step e c = Some c' \<Longrightarrow> socket_state_of c \<noteq> ESTABLISHED \<Longrightarrow>
   socket_state_of c' \<noteq> ESTABLISHED"
  by (cases e)
     (auto simp: socket_state_of_def write_callback_unfold close_unfold dispose_unfold
           ack_def enqueue_def split: if_splits)








end
